theory Spec2Isabelle
  imports Main "HOL-Library.Word"
begin

unbundle bit_operations_syntax

section \<open>Data model\<close>

text \<open>
  The repository is two Go packages: \<open>rsaoaep\<close> (the recipient that wraps a file key for
  an RSA public key) and \<open>gcpkms\<close> (the identity that unwraps it through Google Cloud
  KMS). Go byte slices are lists of 8-bit words, Go strings are \<open>string\<close>s.
\<close>

type_synonym byte = "8 word"

text \<open>\<open>rsa.PublicKey\<close>: the modulus \<open>N\<close> (a big integer) and the public exponent \<open>E\<close>.\<close>

record PublicKey =
  N :: int
  E :: int

text \<open>\<open>age.Stanza\<close>.\<close>

record Stanza =
  Type :: string
  Args :: "string list"
  Body :: "byte list"

text \<open>\<open>pem.Block\<close>, the fields the code reads.\<close>

record Block =
  block_Type :: string
  block_Bytes :: "byte list"

text \<open>
  What \<open>x509.ParsePKIXPublicKey\<close> returns is an \<open>any\<close>: the dynamic type is one of the
  public key types of the standard library. Only the RSA case carries data the code uses.
\<close>

datatype pkixKey = RSAPub PublicKey | DSAPub | ECDSAPub | Ed25519Pub

text \<open>
  \<open>kmspb.CryptoKeyVersion_CryptoKeyVersionAlgorithm\<close>: the three enum values that
  \<open>addKey\<close> names, and any other value (carried with its \<open>String()\<close> name).
\<close>

datatype algorithm =
    RSA_DECRYPT_OAEP_2048_SHA256
  | RSA_DECRYPT_OAEP_3072_SHA256
  | RSA_DECRYPT_OAEP_4096_SHA256
  | OtherAlgorithm string

text \<open>
  Errors as values. Each constructor built by \<open>fmt.Errorf\<close> in the source is listed with
  its format string; \<open>LibraryError\<close> is an error value handed back by a package outside
  the repository (asn1, rsa, x509, the KMS client), which the code passes on unchanged.
\<close>

datatype error =
    ErrIncorrectIdentity               \<comment> \<open>\<open>age.ErrIncorrectIdentity\<close>\<close>
  | NoPEMBlocksFound                   \<comment> \<open>\<open>"no PEM blocks found"\<close>\<close>
  | UnexpectedPEMBlock string          \<comment> \<open>\<open>"found unexpected %q PEM block"\<close>\<close>
  | FailedToParse string               \<comment> \<open>\<open>"failed to parse %q"\<close>\<close>
  | UnsupportedKeyType algorithm       \<comment> \<open>\<open>"unsupported key type: %s"\<close>\<close>
  | InvalidRecipient                   \<comment> \<open>\<open>"invalid kms-rsa-oaep-sha256 recipient"\<close>\<close>
  | ProblemWithKey string error        \<comment> \<open>\<open>"problem with key %q: %w"\<close>\<close>
  | LibraryError string

text \<open>The hash handed to \<open>rsa.EncryptOAEP\<close> (\<open>sha256.New()\<close> in the source).\<close>

datatype hash = SHA1_New | SHA256_New | SHA512_New

text \<open>
  The functions of the Go standard library that the two packages call. They are not part
  of the repository, so the model takes them as parameters, collected in one record;
  \<open>'r\<close> is the state of the entropy source \<open>rand.Reader\<close>.
  \<^item> \<open>asn1_Marshal\<close>: \<open>asn1.Marshal(key)\<close> as both \<open>keyID\<close> functions call it, where
    \<open>key\<close> is a pointer \<open>*rsa.PublicKey\<close> to the key given;
  \<^item> \<open>sha256_Sum256\<close>: \<open>sha256.Sum256\<close>, the digest as a byte list (a \<open>[32]byte\<close> in Go);
  \<^item> \<open>base64_EncodeToString\<close>: \<open>base64.StdEncoding.EncodeToString\<close>;
  \<^item> \<open>rsa_EncryptOAEP\<close>: \<open>rsa.EncryptOAEP hash random pub msg label\<close>;
  \<^item> \<open>pem_Decode\<close>: the first result of \<open>pem.Decode\<close> (\<open>None\<close> for a nil block);
  \<^item> \<open>x509_ParsePKIXPublicKey\<close>: \<open>x509.ParsePKIXPublicKey\<close>.
\<close>

record 'r stdlib =
  asn1_Marshal :: "PublicKey \<Rightarrow> error + byte list"
  sha256_Sum256 :: "byte list \<Rightarrow> byte list"
  base64_EncodeToString :: "byte list \<Rightarrow> string"
  rsa_EncryptOAEP :: "hash \<Rightarrow> 'r \<Rightarrow> PublicKey \<Rightarrow> byte list \<Rightarrow> byte list \<Rightarrow> error + byte list"
  pem_Decode :: "byte list \<Rightarrow> Block option"
  x509_ParsePKIXPublicKey :: "byte list \<Rightarrow> error + pkixKey"

subsection \<open>The KMS backend\<close>

text \<open>\<open>kmspb.PublicKey\<close>, the fields \<open>addKey\<close> reads.\<close>

record PublicKeyResponse =
  pk_Name :: string
  pk_Algorithm :: algorithm
  pk_Pem :: string

text \<open>\<open>kmspb.AsymmetricDecryptRequest\<close>; the checksum is an \<open>int64\<close>.\<close>

record AsymmetricDecryptRequest =
  req_Name :: string
  req_Ciphertext :: "byte list"
  req_CiphertextCrc32C :: "64 word"

text \<open>\<open>kmspb.AsymmetricDecryptResponse\<close>.\<close>

record AsymmetricDecryptResponse =
  resp_Plaintext :: "byte list"
  resp_PlaintextCrc32C :: "64 word"
  resp_VerifiedCiphertextCrc32C :: bool

text \<open>
  \<open>kms.KeyManagementClient\<close>: the two remote calls the code makes. A call either fails
  with an error or answers; the context argument is not modelled.
\<close>

record KeyManagementClient =
  GetPublicKey :: "string \<Rightarrow> error + PublicKeyResponse"
  AsymmetricDecrypt :: "AsymmetricDecryptRequest \<Rightarrow> error + AsymmetricDecryptResponse"

text \<open>The \<open>client\<close> struct of \<open>gcpkms\<close>: the KMS client and the registry map.\<close>

record client =
  kmsClient :: KeyManagementClient
  nameByKeyID :: "string \<rightharpoonup> string"

text \<open>The \<open>recipient\<close> struct of \<open>rsaoaep\<close>.\<close>

record recipient =
  key :: PublicKey
  keyID :: string

section \<open>Package rsaoaep\<close>

definition rsaoaep_keyID :: "'r stdlib \<Rightarrow> PublicKey \<Rightarrow> error + string" where
  "rsaoaep_keyID L k =
     (case asn1_Marshal L k of
        Inl err \<Rightarrow> Inl err
      | Inr keyBytes \<Rightarrow>
          (let digest = sha256_Sum256 L keyBytes
           in Inr (base64_EncodeToString L digest)))"

definition NewRecipient :: "'r stdlib \<Rightarrow> PublicKey \<Rightarrow> error + recipient" where
  "NewRecipient L k =
     (case rsaoaep_keyID L k of
        Inl err \<Rightarrow> Inl err
      | Inr kid \<Rightarrow> Inr \<lparr>key = k, keyID = kid\<rparr>)"

text \<open>
  \<open>Wrap\<close> reads \<open>rand.Reader\<close>: the entropy it consumes is the argument \<open>rnd\<close>. The
  label handed to \<open>rsa.EncryptOAEP\<close> is \<open>nil\<close>, the empty byte list.
\<close>

definition Wrap :: "'r stdlib \<Rightarrow> 'r \<Rightarrow> recipient \<Rightarrow> byte list \<Rightarrow> error + Stanza list" where
  "Wrap L rnd r fileKey =
     (let l = \<lparr>Type = ''kms-rsa-oaep-sha256'', Args = [keyID r], Body = []\<rparr>
      in case rsa_EncryptOAEP L SHA256_New rnd (key r) fileKey [] of
           Inl err \<Rightarrow> Inl err
         | Inr wrappedKey \<Rightarrow> Inr [l\<lparr>Body := wrappedKey\<rparr>])"

section \<open>Package gcpkms\<close>

definition gcpkms_keyID :: "'r stdlib \<Rightarrow> PublicKey \<Rightarrow> error + string" where
  "gcpkms_keyID L k =
     (case asn1_Marshal L k of
        Inl err \<Rightarrow> Inl err
      | Inr keyBytes \<Rightarrow>
          (let digest = sha256_Sum256 L keyBytes
           in Inr (base64_EncodeToString L digest)))"

text \<open>\<open>[]byte(s)\<close>: the bytes of a Go string.\<close>

definition bytes_of_string :: "string \<Rightarrow> byte list" where
  "bytes_of_string s = map (\<lambda>c. of_nat (of_char c)) s"

definition parsePEMEncodedRSAPublicKey :: "'r stdlib \<Rightarrow> byte list \<Rightarrow> error + PublicKey" where
  "parsePEMEncodedRSAPublicKey L pemBytes =
     (case pem_Decode L pemBytes of
        None \<Rightarrow> Inl NoPEMBlocksFound
      | Some block \<Rightarrow>
          if block_Type block \<noteq> ''RSA PUBLIC KEY''
          then Inl (UnexpectedPEMBlock (block_Type block))
          else (case x509_ParsePKIXPublicKey L (block_Bytes block) of
                  Inl err \<Rightarrow> Inl err
                | Inr parsed \<Rightarrow>
                    (case parsed of
                       RSAPub pubKey \<Rightarrow> Inr pubKey
                     | _ \<Rightarrow> Inl (FailedToParse (block_Type block)))))"

text \<open>
  The \<open>switch resp.Algorithm\<close> of \<open>addKey\<close>: the three cases with an empty body leave
  the switch, the default case returns the error.
\<close>

definition supported :: "algorithm \<Rightarrow> bool" where
  "supported a =
     (case a of
        RSA_DECRYPT_OAEP_2048_SHA256 \<Rightarrow> True
      | RSA_DECRYPT_OAEP_3072_SHA256 \<Rightarrow> True
      | RSA_DECRYPT_OAEP_4096_SHA256 \<Rightarrow> True
      | OtherAlgorithm _ \<Rightarrow> False)"

text \<open>
  \<open>addKey\<close> writes into the map of the client it is called on; the model returns the
  updated client. Every error return comes before the write, so a failing call leaves
  the client as it was.
\<close>

definition addKey :: "'r stdlib \<Rightarrow> client \<Rightarrow> string \<Rightarrow> error + client" where
  "addKey L c name =
     (case GetPublicKey (kmsClient c) name of
        Inl err \<Rightarrow> Inl err
      | Inr resp \<Rightarrow>
          if \<not> supported (pk_Algorithm resp)
          then Inl (UnsupportedKeyType (pk_Algorithm resp))
          else (case parsePEMEncodedRSAPublicKey L (bytes_of_string (pk_Pem resp)) of
                  Inl err \<Rightarrow> Inl err
                | Inr k \<Rightarrow>
                    (case gcpkms_keyID L k of
                       Inl err \<Rightarrow> Inl err
                     | Inr kid \<Rightarrow> Inr (c\<lparr>nameByKeyID := (nameByKeyID c)(kid \<mapsto> pk_Name resp)\<rparr>))))"

text \<open>The \<open>for _, name := range names\<close> loop of \<open>NewClient\<close>.\<close>

fun addKeys :: "'r stdlib \<Rightarrow> client \<Rightarrow> string list \<Rightarrow> error + client" where
  "addKeys L cl [] = Inr cl"
| "addKeys L cl (name # names) =
     (case addKey L cl name of
        Inl err \<Rightarrow> Inl (ProblemWithKey name err)
      | Inr cl' \<Rightarrow> addKeys L cl' names)"

text \<open>
  \<open>NewClient\<close>: \<open>newKMS\<close> is the outcome of \<open>kms.NewKeyManagementClient(ctx)\<close>.
\<close>

definition NewClient ::
  "'r stdlib \<Rightarrow> error + KeyManagementClient \<Rightarrow> string list \<Rightarrow> error + client" where
  "NewClient L newKMS names =
     (case newKMS of
        Inl err \<Rightarrow> Inl err
      | Inr k \<Rightarrow> addKeys L \<lparr>kmsClient = k, nameByKeyID = Map.empty\<rparr> names)"

subsection \<open>The checksum\<close>

text \<open>
  Modelled from the spec: \<open>hash/crc32\<close> belongs to the Go standard library and is not in
  the repository; the spec names the checksum as CRC-32 with the Castagnoli polynomial.
  \<open>Castagnoli\<close> is the polynomial in reversed bit order, \<open>MakeTable\<close> the table of the
  256 one-byte remainders, \<open>Checksum\<close> the byte-wise table-driven update with the
  register inverted on entry and on exit.
\<close>

definition Castagnoli :: "32 word" where
  "Castagnoli = 0x82f63b78"

primrec table_entry :: "32 word \<Rightarrow> nat \<Rightarrow> 32 word \<Rightarrow> 32 word" where
  "table_entry poly 0 crc = crc"
| "table_entry poly (Suc j) crc =
     table_entry poly j
       (if crc AND 1 = 1 then drop_bit 1 crc XOR poly else drop_bit 1 crc)"

definition MakeTable :: "32 word \<Rightarrow> 32 word list" where
  "MakeTable poly = map (\<lambda>i. table_entry poly 8 (of_nat i)) [0..<256]"

primrec update_loop :: "32 word list \<Rightarrow> 32 word \<Rightarrow> byte list \<Rightarrow> 32 word" where
  "update_loop tab crc [] = crc"
| "update_loop tab crc (v # p) =
     update_loop tab (tab ! unat ((ucast crc :: byte) XOR v) XOR drop_bit 8 crc) p"

definition Checksum :: "byte list \<Rightarrow> 32 word list \<Rightarrow> 32 word" where
  "Checksum data tab = NOT (update_loop tab (NOT 0) data)"

definition crc32c :: "byte list \<Rightarrow> 32 word" where
  "crc32c data = (let t = MakeTable Castagnoli in Checksum data t)"

subsection \<open>Unwrap\<close>

text \<open>
  What a call of \<open>Unwrap\<close> does besides returning: it reads the registry map and it calls
  the backend. The model returns the result together with the list of these events, in
  the order they happen.
\<close>

datatype event =
    RegistryLookup string
  | BackendDecrypt AsymmetricDecryptRequest

fun Unwrap :: "client \<Rightarrow> Stanza list \<Rightarrow> (error + byte list) \<times> event list" where
  "Unwrap c [] = (Inl ErrIncorrectIdentity, [])"
| "Unwrap c (stanza # stanzas) =
     (if Type stanza \<noteq> ''kms-rsa-oaep-sha256'' then Unwrap c stanzas
      else if length (Args stanza) \<noteq> 1 then (Inl InvalidRecipient, [])
      else (case nameByKeyID c (Args stanza ! 0) of
              None \<Rightarrow>
                (let (res, evs) = Unwrap c stanzas
                 in (res, RegistryLookup (Args stanza ! 0) # evs))
            | Some name \<Rightarrow>
                (let req = \<lparr>req_Name = name,
                            req_Ciphertext = Body stanza,
                            req_CiphertextCrc32C = ucast (crc32c (Body stanza))\<rparr>
                 in (case AsymmetricDecrypt (kmsClient c) req of
                       Inl err \<Rightarrow> Inl err
                     | Inr resp \<Rightarrow> Inr (resp_Plaintext resp),
                     [RegistryLookup (Args stanza ! 0), BackendDecrypt req]))))"

section \<open>Vocabulary of the statements\<close>

text \<open>
  A stanza is skipped by the scan when its type is not the recognized literal, or when it
  has the recognized type, exactly one argument, and that argument is not a key of the
  registry.
\<close>

definition skipped :: "client \<Rightarrow> Stanza \<Rightarrow> bool" where
  "skipped c s \<longleftrightarrow>
     Type s \<noteq> ''kms-rsa-oaep-sha256'' \<or>
     (length (Args s) = 1 \<and> nameByKeyID c (Args s ! 0) = None)"

text \<open>The registry reads made while skipping a list of stanzas: one per stanza of the
  recognized type, for its argument.\<close>

definition lookups :: "Stanza list \<Rightarrow> event list" where
  "lookups pre =
     map (\<lambda>s. RegistryLookup (Args s ! 0))
       (filter (\<lambda>s. Type s = ''kms-rsa-oaep-sha256'') pre)"

text \<open>The backend requests among the events, and the registry keys read.\<close>

fun backendCalls :: "event list \<Rightarrow> AsymmetricDecryptRequest list" where
  "backendCalls [] = []"
| "backendCalls (RegistryLookup _ # evs) = backendCalls evs"
| "backendCalls (BackendDecrypt req # evs) = req # backendCalls evs"

fun registryReads :: "event list \<Rightarrow> string list" where
  "registryReads [] = []"
| "registryReads (RegistryLookup kid # evs) = kid # registryReads evs"
| "registryReads (BackendDecrypt _ # evs) = registryReads evs"

text \<open>The request \<open>Unwrap\<close> builds for a stanza and a backend handle, and what it makes
  of the backend's answer.\<close>

definition decryptRequest :: "string \<Rightarrow> Stanza \<Rightarrow> AsymmetricDecryptRequest" where
  "decryptRequest name s =
     \<lparr>req_Name = name, req_Ciphertext = Body s,
      req_CiphertextCrc32C = ucast (crc32c (Body s))\<rparr>"

definition backendResult :: "client \<Rightarrow> AsymmetricDecryptRequest \<Rightarrow> error + byte list" where
  "backendResult c req =
     (case AsymmetricDecrypt (kmsClient c) req of
        Inl err \<Rightarrow> Inl err
      | Inr resp \<Rightarrow> Inr (resp_Plaintext resp))"

text \<open>
  One step of the table-driven update, with the table entry computed in place: what
  \<open>update_loop\<close> does for one byte when the table is \<open>MakeTable poly\<close>.
\<close>

definition crc_step :: "32 word \<Rightarrow> 32 word \<Rightarrow> byte \<Rightarrow> 32 word" where
  "crc_step poly crc v =
     table_entry poly 8 (ucast ((ucast crc :: byte) XOR v)) XOR drop_bit 8 crc"

text \<open>
  \<open>encoding/asn1\<close> belongs to the Go standard library and is not in the repository. Its
  \<open>Marshal\<close> encodes values (booleans, integers, \<open>*big.Int\<close>, strings, slices, structs)
  and returns the structural error "unknown Go type" for a value of any other type, a
  pointer to a struct among them. Both \<open>keyID\<close> functions hand it the pointer
  \<open>*rsa.PublicKey\<close>, so at this call it returns that error for every key.
  \<open>go_asn1 L\<close> is the library \<open>L\<close> with \<open>asn1.Marshal\<close> behaving so; the other
  functions stay as they are.
\<close>

definition asn1_pointer_error :: error where
  "asn1_pointer_error = LibraryError ''asn1: structure error: unknown Go type: *rsa.PublicKey''"

definition go_asn1 :: "'r stdlib \<Rightarrow> 'r stdlib" where
  "go_asn1 L = L\<lparr>asn1_Marshal := (\<lambda>key. Inl asn1_pointer_error)\<rparr>"

text \<open>
  The error \<open>addKey\<close> returns for a key reference, \<open>None\<close> when it adds the key. It is
  read off a client with an empty registry; \<open>addKey\<close> never reads the registry.
\<close>

definition keyError :: "'r stdlib \<Rightarrow> KeyManagementClient \<Rightarrow> string \<Rightarrow> error option" where
  "keyError L k name =
     (case addKey L \<lparr>kmsClient = k, nameByKeyID = Map.empty\<rparr> name of
        Inl err \<Rightarrow> Some err
      | Inr _ \<Rightarrow> None)"

subsection \<open>A small instance\<close>

text \<open>
  A concrete standard library and backend on which the statements below are exercised:
  textbook RSA with the modulus \<open>77 = 7 * 11\<close>, public exponent \<open>37\<close> and private
  exponent \<open>13\<close>, on one-byte messages; the key encoding is the two bytes of modulus
  and exponent, the digest pads it to 32 bytes, the printable encoding maps each byte to
  the character of the same code. The backend knows the key under the name \<open>keys/a\<close>
  and a second key, \<open>keys/b\<close>, of an algorithm that is not supported.
\<close>

definition demo_pub :: PublicKey where
  "demo_pub = \<lparr>N = 77, E = 37\<rparr>"

definition demo_lib :: "unit stdlib" where
  "demo_lib =
     \<lparr>asn1_Marshal = (\<lambda>k. Inr [of_int (N k), of_int (E k)]),
      sha256_Sum256 = (\<lambda>bs. take 32 (bs @ replicate 32 48)),
      base64_EncodeToString = map (\<lambda>b. char_of (unat b)),
      rsa_EncryptOAEP = (\<lambda>h rnd pub msg label.
         case msg of
           [m] \<Rightarrow> if uint m < N pub
                  then Inr [of_int (uint m ^ nat (E pub) mod N pub)]
                  else Inl (LibraryError ''message too long'')
         | _ \<Rightarrow> Inl (LibraryError ''message too long'')),
      pem_Decode = (\<lambda>bs.
         if bs = bytes_of_string ''pem-a''
         then Some \<lparr>block_Type = ''RSA PUBLIC KEY'', block_Bytes = [77, 37]\<rparr>
         else None),
      x509_ParsePKIXPublicKey = (\<lambda>bs.
         case bs of
           [n, e] \<Rightarrow> Inr (RSAPub \<lparr>N = uint n, E = uint e\<rparr>)
         | _ \<Rightarrow> Inl (LibraryError ''failed to parse public key''))\<rparr>"

definition demo_kid :: string where
  "demo_kid = ''M%000000000000000000000000000000''"

definition demo_kms :: KeyManagementClient where
  "demo_kms =
     \<lparr>GetPublicKey = (\<lambda>name.
         if name = ''keys/a''
         then Inr \<lparr>pk_Name = ''keys/a'', pk_Algorithm = RSA_DECRYPT_OAEP_2048_SHA256,
                   pk_Pem = ''pem-a''\<rparr>
         else if name = ''keys/b''
         then Inr \<lparr>pk_Name = ''keys/b'',
                   pk_Algorithm = OtherAlgorithm ''RSA_DECRYPT_OAEP_4096_SHA512'',
                   pk_Pem = ''pem-b''\<rparr>
         else Inl (LibraryError ''not found'')),
      AsymmetricDecrypt = (\<lambda>req.
         if req_Name req = ''keys/a''
         then (case req_Ciphertext req of
                 [c] \<Rightarrow> Inr \<lparr>resp_Plaintext = [of_int (uint c ^ 13 mod 77)],
                              resp_PlaintextCrc32C = 0,
                              resp_VerifiedCiphertextCrc32C = True\<rparr>
               | _ \<Rightarrow> Inl (LibraryError ''decryption failed''))
         else Inl (LibraryError ''not found''))\<rparr>"

definition demo_client :: client where
  "demo_client = \<lparr>kmsClient = demo_kms, nameByKeyID = [demo_kid \<mapsto> ''keys/a'']\<rparr>"

text \<open>Stanzas: one of another recipient type, one of the recognized type for an unknown
  key, one malformed, and the one that wraps the byte \<open>68\<close> for \<open>demo_pub\<close>.\<close>

definition st_x25519 :: Stanza where
  "st_x25519 = \<lparr>Type = ''X25519'', Args = [''abc''], Body = [1, 2, 3]\<rparr>"

definition st_unknown :: Stanza where
  "st_unknown = \<lparr>Type = ''kms-rsa-oaep-sha256'', Args = [''unknown''], Body = [9]\<rparr>"

definition st_malformed :: Stanza where
  "st_malformed = \<lparr>Type = ''kms-rsa-oaep-sha256'', Args = [], Body = [9]\<rparr>"

definition st_demo :: Stanza where
  "st_demo = \<lparr>Type = ''kms-rsa-oaep-sha256'', Args = [demo_kid], Body = [40]\<rparr>"

text \<open>The same library, except that the PEM block it decodes carries the label
  \<open>PUBLIC KEY\<close>.\<close>

definition pkix_lib :: "unit stdlib" where
  "pkix_lib =
     demo_lib\<lparr>pem_Decode := (\<lambda>bs.
         if bs = bytes_of_string ''pem-a''
         then Some \<lparr>block_Type = ''PUBLIC KEY'', block_Bytes = [77, 37]\<rparr>
         else None)\<rparr>"

text \<open>
  And the library whose PEM block carries the label \<open>RSA PUBLIC KEY\<close> over bytes that
  are not a PKIX structure (the PKCS #1 form), which \<open>x509.ParsePKIXPublicKey\<close> refuses.
\<close>

definition pkcs1_lib :: "unit stdlib" where
  "pkcs1_lib =
     demo_lib\<lparr>pem_Decode := (\<lambda>bs.
         if bs = bytes_of_string ''pem-a''
         then Some \<lparr>block_Type = ''RSA PUBLIC KEY'', block_Bytes = [48, 77, 37]\<rparr>
         else None),
       x509_ParsePKIXPublicKey := (\<lambda>bs.
         Inl (LibraryError ''x509: failed to parse public key (use ParsePKCS1PublicKey instead for this key format)''))\<rparr>"

section \<open>The two key identifiers\<close>

lemma keyID_same: "rsaoaep_keyID L k = gcpkms_keyID L k"
  by (simp add: rsaoaep_keyID_def gcpkms_keyID_def)

text \<open>
  C10. The key identifier of the wrapper (package rsaoaep) and the key identifier of the
  registry (package gcpkms) are the same function: for every standard library and every
  RSA public key both return the same result, the same identifier or the same error.
\<close>

theorem keyID_packages_agree: "rsaoaep_keyID L = gcpkms_keyID L"
  by (rule ext) (simp add: rsaoaep_keyID_def gcpkms_keyID_def)

section \<open>The scan of Unwrap\<close>

lemma backendCalls_append: "backendCalls (xs @ ys) = backendCalls xs @ backendCalls ys"
  by (induction xs rule: backendCalls.induct) simp_all

lemma backendCalls_lookups: "backendCalls (lookups pre) = []"
  by (induction pre) (simp_all add: lookups_def)

lemma Unwrap_malformed_head:
  "Type s = ''kms-rsa-oaep-sha256'' \<Longrightarrow> length (Args s) \<noteq> 1 \<Longrightarrow>
   Unwrap c (s # rest) = (Inl InvalidRecipient, [])"
  by simp

lemma Unwrap_unresolved_head:
  "Type s = ''kms-rsa-oaep-sha256'' \<Longrightarrow> length (Args s) = 1 \<Longrightarrow>
   nameByKeyID c (Args s ! 0) = None \<Longrightarrow>
   Unwrap c (s # rest) =
     (fst (Unwrap c rest), RegistryLookup (Args s ! 0) # snd (Unwrap c rest))"
  by (simp add: case_prod_unfold Let_def)

lemma Unwrap_match_head:
  "Type s = ''kms-rsa-oaep-sha256'' \<Longrightarrow> Args s = [kid] \<Longrightarrow> nameByKeyID c kid = Some name \<Longrightarrow>
   Unwrap c (s # rest) =
     (backendResult c (decryptRequest name s),
      [RegistryLookup kid, BackendDecrypt (decryptRequest name s)])"
  by (simp add: backendResult_def decryptRequest_def Let_def)

lemma Unwrap_skip:
  "\<forall>p\<in>set pre. skipped c p \<Longrightarrow>
   Unwrap c (pre @ rest) = (fst (Unwrap c rest), lookups pre @ snd (Unwrap c rest))"
proof (induction pre)
  case Nil
  show ?case by (simp add: lookups_def)
next
  case (Cons p pre)
  then have IH: "Unwrap c (pre @ rest) = (fst (Unwrap c rest), lookups pre @ snd (Unwrap c rest))"
    by simp
  from Cons.prems have "skipped c p" by simp
  then show ?case
    by (auto simp add: skipped_def IH lookups_def Let_def)
qed

lemma Unwrap_match:
  assumes "\<forall>p\<in>set pre. skipped c p"
      and "Type s = ''kms-rsa-oaep-sha256''" "Args s = [kid]" "nameByKeyID c kid = Some name"
  shows "Unwrap c (pre @ s # rest) =
     (backendResult c (decryptRequest name s),
      lookups pre @ [RegistryLookup kid, BackendDecrypt (decryptRequest name s)])"
  using Unwrap_skip [OF assms(1), of "s # rest"] Unwrap_match_head [OF assms(2-4), of rest]
  by simp

text \<open>
  Whatever the stanzas: either the events hold no backend call, or the last event is a
  backend call, no earlier one is, and the result is what that call gave.
\<close>

lemma Unwrap_calls:
  "backendCalls (snd (Unwrap c ss)) = [] \<or>
   (\<exists>req evs. snd (Unwrap c ss) = evs @ [BackendDecrypt req] \<and> backendCalls evs = [] \<and>
      fst (Unwrap c ss) = backendResult c req)"
proof (induction c ss rule: Unwrap.induct)
  case (1 c)
  show ?case by simp
next
  case (2 c stanza stanzas)
  show ?case
  proof (cases "Type stanza \<noteq> ''kms-rsa-oaep-sha256''")
    case True
    with 2 show ?thesis by simp
  next
    case rec: False
    show ?thesis
    proof (cases "length (Args stanza) \<noteq> 1")
      case True
      with rec show ?thesis by simp
    next
      case one: False
      show ?thesis
      proof (cases "nameByKeyID c (Args stanza ! 0)")
        case None
        have step: "Unwrap c (stanza # stanzas) =
            (fst (Unwrap c stanzas), RegistryLookup (Args stanza ! 0) # snd (Unwrap c stanzas))"
          using rec one None by (intro Unwrap_unresolved_head) simp_all
        from 2(2) [OF rec one None] have
          "backendCalls (snd (Unwrap c stanzas)) = [] \<or>
           (\<exists>req evs. snd (Unwrap c stanzas) = evs @ [BackendDecrypt req] \<and> backendCalls evs = [] \<and>
              fst (Unwrap c stanzas) = backendResult c req)" .
        then show ?thesis
        proof
          assume "backendCalls (snd (Unwrap c stanzas)) = []"
          then show ?thesis by (simp add: step del: Unwrap.simps)
        next
          assume "\<exists>req evs. snd (Unwrap c stanzas) = evs @ [BackendDecrypt req] \<and> backendCalls evs = [] \<and>
              fst (Unwrap c stanzas) = backendResult c req"
          then obtain req evs where
            e: "snd (Unwrap c stanzas) = evs @ [BackendDecrypt req]" "backendCalls evs = []"
               "fst (Unwrap c stanzas) = backendResult c req" by blast
          have "snd (Unwrap c (stanza # stanzas)) =
                  (RegistryLookup (Args stanza ! 0) # evs) @ [BackendDecrypt req]"
            using e(1) by (simp add: step del: Unwrap.simps)
          moreover have "backendCalls (RegistryLookup (Args stanza ! 0) # evs) = []"
            using e(2) by simp
          moreover have "fst (Unwrap c (stanza # stanzas)) = backendResult c req"
            using e(3) by (simp add: step del: Unwrap.simps)
          ultimately show ?thesis by blast
        qed
      next
        case (Some name)
        have "snd (Unwrap c (stanza # stanzas)) =
                [RegistryLookup (Args stanza ! 0)] @ [BackendDecrypt (decryptRequest name stanza)]"
          using rec one Some by (simp add: decryptRequest_def Let_def)
        moreover have "fst (Unwrap c (stanza # stanzas)) = backendResult c (decryptRequest name stanza)"
          using rec one Some by (simp add: decryptRequest_def backendResult_def Let_def)
        moreover have "backendCalls [RegistryLookup (Args stanza ! 0)] = []" by simp
        ultimately show ?thesis by blast
      qed
    qed
  qed
qed

subsection \<open>Facts of the small instance\<close>

lemma demo_skipped:
  "skipped demo_client st_x25519" "skipped demo_client st_unknown"
  by (simp_all add: skipped_def demo_client_def st_x25519_def st_unknown_def demo_kid_def)

lemma demo_lookups:
  "lookups [st_x25519, st_unknown] = [RegistryLookup ''unknown'']"
  "lookups [st_x25519] = []"
  by (simp_all add: lookups_def st_x25519_def st_unknown_def)

lemma demo_registry: "nameByKeyID demo_client demo_kid = Some ''keys/a''"
  by (simp add: demo_client_def)

lemma demo_decrypt:
  "AsymmetricDecrypt (kmsClient demo_client) (decryptRequest ''keys/a'' st_demo) =
     Inr \<lparr>resp_Plaintext = [68], resp_PlaintextCrc32C = 0, resp_VerifiedCiphertextCrc32C = True\<rparr>"
  by (simp add: demo_client_def demo_kms_def decryptRequest_def st_demo_def)

subsection \<open>Malformed stanza\<close>

text \<open>
  C4. When the scan reaches a stanza of the recognized type whose argument list does not
  have exactly one element (every stanza before it was skipped), \<open>Unwrap\<close> fails with
  the error "invalid kms-rsa-oaep-sha256 recipient", whatever follows the stanza. The
  events are exactly the registry reads made for the skipped stanzas before it: no
  registry read is made for the malformed stanza, and there is no backend call.
\<close>

theorem Unwrap_malformed:
  assumes "\<forall>p\<in>set pre. skipped c p"
      and "Type s = ''kms-rsa-oaep-sha256''"
      and "length (Args s) \<noteq> 1"
  shows "Unwrap c (pre @ s # rest) = (Inl InvalidRecipient, lookups pre)
       \<and> backendCalls (snd (Unwrap c (pre @ s # rest))) = []
       \<and> registryReads (snd (Unwrap c (pre @ s # rest))) = registryReads (snd (Unwrap c pre))"
proof -
  have eq: "Unwrap c (pre @ s # rest) = (Inl InvalidRecipient, lookups pre)"
    using Unwrap_skip [OF assms(1), of "s # rest"] Unwrap_malformed_head [OF assms(2,3), of c rest]
    by simp
  have "Unwrap c (pre @ []) = (fst (Unwrap c []), lookups pre @ snd (Unwrap c []))"
    by (rule Unwrap_skip [OF assms(1)])
  then have "snd (Unwrap c pre) = lookups pre" by simp
  with eq show ?thesis by (simp add: backendCalls_lookups)
qed

theorem Unwrap_malformed_witness:
  "Unwrap demo_client ([st_x25519, st_unknown] @ st_malformed # [st_demo]) =
     (Inl InvalidRecipient, [RegistryLookup ''unknown''])
   \<and> Unwrap demo_client ([st_x25519] @ st_malformed # [st_demo]) = (Inl InvalidRecipient, [])"
proof -
  have a: "\<forall>p\<in>set [st_x25519, st_unknown]. skipped demo_client p"
    by (simp add: demo_skipped)
  have b: "\<forall>p\<in>set [st_x25519]. skipped demo_client p"
    by (simp add: demo_skipped)
  have t: "Type st_malformed = ''kms-rsa-oaep-sha256''" and l: "length (Args st_malformed) \<noteq> 1"
    by (simp_all add: st_malformed_def)
  show ?thesis
    using Unwrap_malformed [OF a t l, of "[st_demo]"] Unwrap_malformed [OF b t l, of "[st_demo]"]
    by (simp add: demo_lookups del: Unwrap.simps)
qed

subsection \<open>No stanza for this identity\<close>

text \<open>
  C5. When every stanza of the list is skipped (its type is not the recognized one, or it
  has the recognized type with exactly one argument that is not in the registry),
  \<open>Unwrap\<close> returns the sentinel \<open>ErrIncorrectIdentity\<close> and makes no backend call: the
  events are registry reads only.
\<close>

theorem Unwrap_incorrect_identity:
  assumes "\<forall>s\<in>set ss. skipped c s"
  shows "Unwrap c ss = (Inl ErrIncorrectIdentity, lookups ss)
       \<and> backendCalls (snd (Unwrap c ss)) = []"
proof -
  have "Unwrap c (ss @ []) = (fst (Unwrap c []), lookups ss @ snd (Unwrap c []))"
    by (rule Unwrap_skip [OF assms])
  then show ?thesis by (simp add: backendCalls_lookups)
qed

theorem Unwrap_incorrect_identity_witness:
  "Unwrap demo_client [st_x25519, st_unknown] =
     (Inl ErrIncorrectIdentity, [RegistryLookup ''unknown''])
   \<and> backendCalls (snd (Unwrap demo_client [st_x25519, st_unknown])) = []"
proof -
  have a: "\<forall>p\<in>set [st_x25519, st_unknown]. skipped demo_client p"
    by (simp add: demo_skipped)
  show ?thesis
    using Unwrap_incorrect_identity [OF a]
    by (simp add: demo_lookups del: Unwrap.simps)
qed

subsection \<open>One backend call\<close>

text \<open>
  C6. For every stanza list \<open>Unwrap\<close> makes at most one backend call. When it makes
  one, the call is the last event and the result is what the call gave: the plaintext
  of the response, or the backend's error unchanged. When the scan reaches a stanza of
  the recognized type whose single argument resolves in the registry, the call is made
  for that stanza, and result and events do not depend on the stanzas after it: the
  scan is not resumed, whether the call succeeded or failed.
\<close>

theorem Unwrap_one_backend_call:
  "length (backendCalls (snd (Unwrap c ss))) \<le> 1
   \<and> (\<forall>req. backendCalls (snd (Unwrap c ss)) = [req] \<longrightarrow>
         last (snd (Unwrap c ss)) = BackendDecrypt req
         \<and> fst (Unwrap c ss) = backendResult c req)
   \<and> ((\<forall>p\<in>set pre. skipped c p) \<and> Type s = ''kms-rsa-oaep-sha256'' \<and> Args s = [kid]
        \<and> nameByKeyID c kid = Some name \<longrightarrow>
         Unwrap c (pre @ s # rest) =
           (backendResult c (decryptRequest name s),
            lookups pre @ [RegistryLookup kid, BackendDecrypt (decryptRequest name s)]))"
proof (intro conjI allI impI)
  show "length (backendCalls (snd (Unwrap c ss))) \<le> 1"
    using Unwrap_calls [of c ss] by (auto simp add: backendCalls_append)
next
  fix req
  assume one: "backendCalls (snd (Unwrap c ss)) = [req]"
  with Unwrap_calls [of c ss] obtain req' evs where
    e: "snd (Unwrap c ss) = evs @ [BackendDecrypt req']" "backendCalls evs = []"
       "fst (Unwrap c ss) = backendResult c req'"
    by auto
  from one e(1,2) have "req' = req" by (simp add: backendCalls_append)
  with e show "last (snd (Unwrap c ss)) = BackendDecrypt req" by simp
  from \<open>req' = req\<close> e show "fst (Unwrap c ss) = backendResult c req" by simp
next
  assume "(\<forall>p\<in>set pre. skipped c p) \<and> Type s = ''kms-rsa-oaep-sha256'' \<and> Args s = [kid]
        \<and> nameByKeyID c kid = Some name"
  then show "Unwrap c (pre @ s # rest) =
           (backendResult c (decryptRequest name s),
            lookups pre @ [RegistryLookup kid, BackendDecrypt (decryptRequest name s)])"
    by (intro Unwrap_match) simp_all
qed

theorem Unwrap_one_backend_call_witness:
  "Unwrap demo_client ([st_x25519, st_unknown] @ st_demo # [st_malformed, st_demo]) =
     (Inr [68],
      [RegistryLookup ''unknown'', RegistryLookup demo_kid,
       BackendDecrypt (decryptRequest ''keys/a'' st_demo)])
   \<and> Unwrap demo_client ([st_x25519, st_unknown] @ st_demo\<lparr>Body := [1, 2]\<rparr> # [st_demo]) =
     (Inl (LibraryError ''decryption failed''),
      [RegistryLookup ''unknown'', RegistryLookup demo_kid,
       BackendDecrypt (decryptRequest ''keys/a'' (st_demo\<lparr>Body := [1, 2]\<rparr>))])"
proof -
  have a: "\<forall>p\<in>set [st_x25519, st_unknown]. skipped demo_client p"
    by (simp add: demo_skipped)
  have t: "Type st_demo = ''kms-rsa-oaep-sha256''" "Args st_demo = [demo_kid]"
    by (simp_all add: st_demo_def)
  have ok: "backendResult demo_client (decryptRequest ''keys/a'' st_demo) = Inr [68]"
    by (simp add: backendResult_def demo_decrypt)
  have bad: "backendResult demo_client (decryptRequest ''keys/a'' (st_demo\<lparr>Body := [1, 2]\<rparr>)) =
      Inl (LibraryError ''decryption failed'')"
    by (simp add: backendResult_def demo_client_def demo_kms_def decryptRequest_def st_demo_def)
  show ?thesis
    using Unwrap_one_backend_call [of demo_client "[]" "[st_x25519, st_unknown]" st_demo
        demo_kid "''keys/a''" "[st_malformed, st_demo]"]
      Unwrap_one_backend_call [of demo_client "[]" "[st_x25519, st_unknown]"
        "st_demo\<lparr>Body := [1, 2]\<rparr>" demo_kid "''keys/a''" "[st_demo]"]
    by (simp add: a t ok bad demo_registry demo_lookups del: Unwrap.simps)
qed

subsection \<open>The checksum of the request\<close>

lemma MakeTable_nth: "i < 256 \<Longrightarrow> MakeTable poly ! i = table_entry poly 8 (of_nat i)"
  by (simp add: MakeTable_def)

lemma update_loop_table:
  "update_loop (MakeTable poly) crc p = foldl (crc_step poly) crc p"
proof (induction p arbitrary: crc)
  case Nil
  show ?case by simp
next
  case (Cons v p)
  have "unat ((ucast crc :: byte) XOR v) < 256"
    using unsigned_less [of "(ucast crc :: byte) XOR v", where ?'a = nat] by simp
  then show ?case
    by (simp add: MakeTable_nth Cons.IH crc_step_def)
qed

lemma crc32c_foldl: "crc32c data = NOT (foldl (crc_step Castagnoli) (NOT 0) data)"
  by (simp add: crc32c_def Checksum_def update_loop_table)

lemma crc_steps:
  "crc_step Castagnoli (- 1) 49 = 1862952476"
  "crc_step Castagnoli 1862952476 50 = 2359966623"
  "crc_step Castagnoli 2359966623 51 = 4018458701"
  "crc_step Castagnoli 4018458701 52 = 163908369"
  "crc_step Castagnoli 163908369 53 = 3878608074"
  "crc_step Castagnoli 3878608074 54 = 3200945785"
  "crc_step Castagnoli 3200945785 55 = 3988613141"
  "crc_step Castagnoli 3988613141 56 = 2675474277"
  "crc_step Castagnoli 2675474277 57 = 486108540"
  by code_simp+

text \<open>The check value of CRC-32C: the checksum of the nine ASCII digits \<open>123456789\<close>.\<close>

lemma crc32c_check_value: "crc32c (bytes_of_string ''123456789'') = 0xE3069283"
  by (simp add: crc32c_foldl bytes_of_string_def crc_steps)

lemma crc32c_D: "crc32c [68] = 3567049202"
  unfolding crc32c_foldl by code_simp

lemma int64_of_uint32: "sint (ucast (w :: 32 word) :: 64 word) = uint w"
proof -
  have "uint w < 2 ^ 32" using uint_bounded [of w] by simp
  then have "uint w < 2 ^ 63" by simp
  moreover have "- (2 ^ 63) \<le> uint w"
  proof -
    have "- (2 ^ 63) \<le> (0 :: int)" by simp
    also have "0 \<le> uint w" by simp
    finally show ?thesis .
  qed
  ultimately show ?thesis
    by (simp add: signed_ucast_eq signed_take_bit_int_eq_self_iff)
qed

lemma Unwrap_requests:
  "req \<in> set (backendCalls (snd (Unwrap c ss))) \<Longrightarrow>
   \<exists>s\<in>set ss. \<exists>name. req = decryptRequest name s \<and> Type s = ''kms-rsa-oaep-sha256''
      \<and> nameByKeyID c (Args s ! 0) = Some name"
proof (induction c ss rule: Unwrap.induct)
  case (1 c)
  then show ?case by simp
next
  case (2 c stanza stanzas)
  show ?case
  proof (cases "Type stanza \<noteq> ''kms-rsa-oaep-sha256''")
    case True
    with 2 show ?thesis by simp
  next
    case rec: False
    show ?thesis
    proof (cases "length (Args stanza) \<noteq> 1")
      case True
      with rec 2(3) show ?thesis by simp
    next
      case one: False
      show ?thesis
      proof (cases "nameByKeyID c (Args stanza ! 0)")
        case None
        have step: "Unwrap c (stanza # stanzas) =
            (fst (Unwrap c stanzas), RegistryLookup (Args stanza ! 0) # snd (Unwrap c stanzas))"
          using rec one None by (intro Unwrap_unresolved_head) simp_all
        from 2(3) have "req \<in> set (backendCalls (snd (Unwrap c stanzas)))"
          by (simp add: step del: Unwrap.simps)
        from 2(2) [OF rec one None this] show ?thesis by auto
      next
        case (Some name)
        have "snd (Unwrap c (stanza # stanzas)) =
                [RegistryLookup (Args stanza ! 0), BackendDecrypt (decryptRequest name stanza)]"
          using rec one Some by (simp add: decryptRequest_def Let_def)
        with 2(3) have "req = decryptRequest name stanza" by simp
        with rec Some show ?thesis by auto
      qed
    qed
  qed
qed

text \<open>
  C9. Every backend request \<open>Unwrap\<close> makes carries, next to the body of a stanza of
  the recognized type as ciphertext, the CRC-32 checksum of that body, computed with the
  table of the Castagnoli polynomial and converted to a (non-negative) \<open>int64\<close>. For a
  matched stanza the request is made with the resolved name, and when the backend
  answers, the result is the plaintext of the response, whatever the checksum fields of
  the response hold: they are not read.
\<close>

theorem Unwrap_checksum:
  "(\<forall>req\<in>set (backendCalls (snd (Unwrap c ss))).
       (\<exists>s\<in>set ss. Type s = ''kms-rsa-oaep-sha256'' \<and> req_Ciphertext req = Body s)
       \<and> req_CiphertextCrc32C req =
           ucast (Checksum (req_Ciphertext req) (MakeTable Castagnoli))
       \<and> sint (req_CiphertextCrc32C req) = uint (crc32c (req_Ciphertext req)))
   \<and> ((\<forall>p\<in>set pre. skipped c p) \<and> Type s = ''kms-rsa-oaep-sha256'' \<and> Args s = [kid]
        \<and> nameByKeyID c kid = Some name
        \<and> AsymmetricDecrypt (kmsClient c)
             \<lparr>req_Name = name, req_Ciphertext = Body s,
              req_CiphertextCrc32C = ucast (crc32c (Body s))\<rparr> = Inr resp \<longrightarrow>
         backendCalls (snd (Unwrap c (pre @ s # rest))) =
           [\<lparr>req_Name = name, req_Ciphertext = Body s,
             req_CiphertextCrc32C = ucast (crc32c (Body s))\<rparr>]
         \<and> fst (Unwrap c (pre @ s # rest)) = Inr (resp_Plaintext resp))"
proof (intro conjI ballI impI)
  fix req
  assume "req \<in> set (backendCalls (snd (Unwrap c ss)))"
  from Unwrap_requests [OF this] obtain s name where
    s: "s \<in> set ss" "req = decryptRequest name s" "Type s = ''kms-rsa-oaep-sha256''"
    by blast
  show "\<exists>s\<in>set ss. Type s = ''kms-rsa-oaep-sha256'' \<and> req_Ciphertext req = Body s"
    using s by (auto simp add: decryptRequest_def)
  show "req_CiphertextCrc32C req = ucast (Checksum (req_Ciphertext req) (MakeTable Castagnoli))"
    using s(2) by (simp add: decryptRequest_def crc32c_def)
  show "sint (req_CiphertextCrc32C req) = uint (crc32c (req_Ciphertext req))"
    using s(2) by (simp add: decryptRequest_def int64_of_uint32)
next
  assume a: "(\<forall>p\<in>set pre. skipped c p) \<and> Type s = ''kms-rsa-oaep-sha256'' \<and> Args s = [kid]
        \<and> nameByKeyID c kid = Some name
        \<and> AsymmetricDecrypt (kmsClient c)
             \<lparr>req_Name = name, req_Ciphertext = Body s,
              req_CiphertextCrc32C = ucast (crc32c (Body s))\<rparr> = Inr resp"
  then have m: "Unwrap c (pre @ s # rest) =
     (backendResult c (decryptRequest name s),
      lookups pre @ [RegistryLookup kid, BackendDecrypt (decryptRequest name s)])"
    by (intro Unwrap_match) simp_all
  show "backendCalls (snd (Unwrap c (pre @ s # rest))) =
           [\<lparr>req_Name = name, req_Ciphertext = Body s,
             req_CiphertextCrc32C = ucast (crc32c (Body s))\<rparr>]"
    by (simp add: m backendCalls_append backendCalls_lookups decryptRequest_def)
  show "fst (Unwrap c (pre @ s # rest)) = Inr (resp_Plaintext resp)"
    using a by (simp add: m backendResult_def decryptRequest_def)
qed

text \<open>In the instance the backend answers with a plaintext checksum of 0, which is not
  the checksum of the plaintext; \<open>Unwrap\<close> returns the plaintext all the same.\<close>

theorem Unwrap_checksum_witness:
  "backendCalls (snd (Unwrap demo_client ([st_x25519, st_unknown] @ st_demo # []))) =
     [\<lparr>req_Name = ''keys/a'', req_Ciphertext = [40],
       req_CiphertextCrc32C = ucast (crc32c [40])\<rparr>]
   \<and> fst (Unwrap demo_client ([st_x25519, st_unknown] @ st_demo # [])) = Inr [68]
   \<and> AsymmetricDecrypt demo_kms
        \<lparr>req_Name = ''keys/a'', req_Ciphertext = [40],
         req_CiphertextCrc32C = ucast (crc32c [40])\<rparr> =
       Inr \<lparr>resp_Plaintext = [68], resp_PlaintextCrc32C = 0,
            resp_VerifiedCiphertextCrc32C = True\<rparr>
   \<and> ucast (crc32c [68]) \<noteq> (0 :: 64 word)"
proof -
  have a: "\<forall>p\<in>set [st_x25519, st_unknown]. skipped demo_client p"
    by (simp add: demo_skipped)
  have t: "Type st_demo = ''kms-rsa-oaep-sha256''" "Args st_demo = [demo_kid]"
    "Body st_demo = [40]"
    by (simp_all add: st_demo_def)
  have d: "AsymmetricDecrypt demo_kms
        \<lparr>req_Name = ''keys/a'', req_Ciphertext = [40],
         req_CiphertextCrc32C = ucast (crc32c [40])\<rparr> =
       Inr \<lparr>resp_Plaintext = [68], resp_PlaintextCrc32C = 0,
            resp_VerifiedCiphertextCrc32C = True\<rparr>"
    by (simp add: demo_kms_def)
  have k: "kmsClient demo_client = demo_kms" by (simp add: demo_client_def)
  show ?thesis
    using Unwrap_checksum [of demo_client "[]" "[st_x25519, st_unknown]" st_demo demo_kid
        "''keys/a''" "\<lparr>resp_Plaintext = [68], resp_PlaintextCrc32C = 0,
            resp_VerifiedCiphertextCrc32C = True\<rparr>" "[]"]
    by (simp add: a t d k demo_registry crc32c_D del: Unwrap.simps)
qed

section \<open>Building the registry\<close>

lemma addKey_kmsClient: "addKey L c name = Inr c' \<Longrightarrow> kmsClient c' = kmsClient c"
  by (auto simp add: addKey_def split: sum.splits if_splits)

text \<open>Whether \<open>addKey\<close> fails, and with which error, depends on the backend only.\<close>

lemma addKey_keyError:
  "addKey L c name =
     (case keyError L (kmsClient c) name of
        Some err \<Rightarrow> Inl err
      | None \<Rightarrow>
          (case addKey L c name of Inl err \<Rightarrow> Inl err | Inr c' \<Rightarrow> Inr c'))"
  by (simp add: keyError_def addKey_def split: sum.splits)

lemma addKey_Inl_iff: "addKey L c name = Inl err \<longleftrightarrow> keyError L (kmsClient c) name = Some err"
  by (simp add: keyError_def addKey_def split: sum.splits)

lemma keyError_unsupported:
  "GetPublicKey k name = Inr resp \<Longrightarrow> \<not> supported (pk_Algorithm resp) \<Longrightarrow>
   keyError L k name = Some (UnsupportedKeyType (pk_Algorithm resp))"
  by (simp add: keyError_def addKey_def)

lemma addKeys_ok:
  "\<forall>n\<in>set pre. keyError L (kmsClient cl) n = None \<Longrightarrow>
   \<exists>cl'. addKeys L cl pre = Inr cl' \<and> kmsClient cl' = kmsClient cl"
proof (induction pre arbitrary: cl)
  case Nil
  show ?case by simp
next
  case (Cons n pre)
  from Cons.prems have "keyError L (kmsClient cl) n = None" by simp
  then obtain c1 where c1: "addKey L cl n = Inr c1"
    by (cases "addKey L cl n") (simp_all add: addKey_Inl_iff)
  then have k: "kmsClient c1 = kmsClient cl" by (rule addKey_kmsClient)
  with Cons.prems have "\<forall>n\<in>set pre. keyError L (kmsClient c1) n = None" by simp
  from Cons.IH [OF this] obtain cl' where "addKeys L c1 pre = Inr cl'" "kmsClient cl' = kmsClient c1"
    by blast
  with c1 k show ?case by simp
qed

lemma addKeys_first_failure:
  assumes "\<forall>n\<in>set pre. keyError L (kmsClient cl) n = None"
      and "keyError L (kmsClient cl) name = Some err"
  shows "addKeys L cl (pre @ name # rest) = Inl (ProblemWithKey name err)"
  using assms
proof (induction pre arbitrary: cl)
  case Nil
  then have "addKey L cl name = Inl err" by (simp add: addKey_Inl_iff)
  then show ?case by simp
next
  case (Cons n pre)
  from Cons.prems have "keyError L (kmsClient cl) n = None" by simp
  then obtain c1 where c1: "addKey L cl n = Inr c1"
    by (cases "addKey L cl n") (simp_all add: addKey_Inl_iff)
  then have k: "kmsClient c1 = kmsClient cl" by (rule addKey_kmsClient)
  with Cons.prems have "\<forall>n\<in>set pre. keyError L (kmsClient c1) n = None"
    and "keyError L (kmsClient c1) name = Some err" by simp_all
  from Cons.IH [OF this] c1 show ?case by simp
qed

text \<open>A list with a failing reference splits at the first one.\<close>

lemma first_failing:
  "\<exists>n\<in>set names. f n \<noteq> None \<Longrightarrow>
   \<exists>pre name rest err. names = pre @ name # rest \<and> (\<forall>n\<in>set pre. f n = None) \<and> f name = Some err"
proof (induction names)
  case Nil
  then show ?case by simp
next
  case (Cons a names)
  show ?case
  proof (cases "f a")
    case (Some err)
    then have "a # names = [] @ a # names \<and> (\<forall>n\<in>set []. f n = None) \<and> f a = Some err"
      by simp
    then show ?thesis by blast
  next
    case None
    with Cons.prems have "\<exists>n\<in>set names. f n \<noteq> None" by auto
    from Cons.IH [OF this] obtain pre name rest err where
      "names = pre @ name # rest" "\<forall>n\<in>set pre. f n = None" "f name = Some err" by blast
    with None have "a # names = (a # pre) @ name # rest \<and> (\<forall>n\<in>set (a # pre). f n = None)
        \<and> f name = Some err" by simp
    then show ?thesis by blast
  qed
qed

lemma addKey_Inr:
  "addKey L c name = Inr c' \<Longrightarrow>
   \<exists>resp k kid. GetPublicKey (kmsClient c) name = Inr resp \<and> supported (pk_Algorithm resp)
      \<and> parsePEMEncodedRSAPublicKey L (bytes_of_string (pk_Pem resp)) = Inr k
      \<and> gcpkms_keyID L k = Inr kid
      \<and> c' = c\<lparr>nameByKeyID := (nameByKeyID c)(kid \<mapsto> pk_Name resp)\<rparr>"
  by (auto simp add: addKey_def split: sum.splits if_splits)

lemma addKeys_dom:
  "addKeys L c names = Inr c' \<Longrightarrow> dom (nameByKeyID c) \<subseteq> dom (nameByKeyID c')"
proof (induction names arbitrary: c)
  case Nil
  then show ?case by simp
next
  case (Cons n names)
  from Cons.prems obtain c1 where c1: "addKey L c n = Inr c1" "addKeys L c1 names = Inr c'"
    by (auto split: sum.splits)
  from addKey_Inr [OF c1(1)] have "dom (nameByKeyID c) \<subseteq> dom (nameByKeyID c1)" by auto
  with Cons.IH [OF c1(2)] show ?case by blast
qed

text \<open>
  A client that \<open>NewClient\<close> returns has every configured reference in its registry:
  the reference was fetched, its key parsed, and the identifier of the key is a key of
  the map.
\<close>

lemma addKeys_registers:
  "addKeys L c names = Inr c' \<Longrightarrow> name \<in> set names \<Longrightarrow>
   \<exists>resp k kid. GetPublicKey (kmsClient c) name = Inr resp
      \<and> parsePEMEncodedRSAPublicKey L (bytes_of_string (pk_Pem resp)) = Inr k
      \<and> gcpkms_keyID L k = Inr kid \<and> kid \<in> dom (nameByKeyID c')"
proof (induction names arbitrary: c)
  case Nil
  then show ?case by simp
next
  case (Cons n names)
  from Cons.prems(1) obtain c1 where c1: "addKey L c n = Inr c1" "addKeys L c1 names = Inr c'"
    by (auto split: sum.splits)
  from c1(1) have k: "kmsClient c1 = kmsClient c" by (rule addKey_kmsClient)
  show ?case
  proof (cases "name = n")
    case True
    from addKey_Inr [OF c1(1)] obtain resp k kid where
      r: "GetPublicKey (kmsClient c) n = Inr resp"
         "parsePEMEncodedRSAPublicKey L (bytes_of_string (pk_Pem resp)) = Inr k"
         "gcpkms_keyID L k = Inr kid"
         "c1 = c\<lparr>nameByKeyID := (nameByKeyID c)(kid \<mapsto> pk_Name resp)\<rparr>"
      by blast
    from r(4) have "kid \<in> dom (nameByKeyID c1)" by simp
    with addKeys_dom [OF c1(2)] have "kid \<in> dom (nameByKeyID c')" by blast
    with r True show ?thesis by blast
  next
    case False
    with Cons.prems(2) have "name \<in> set names" by simp
    from Cons.IH [OF c1(2) this] k show ?thesis by simp
  qed
qed

lemma NewClient_registers:
  "NewClient L (Inr k) names = Inr c \<Longrightarrow> name \<in> set names \<Longrightarrow>
   \<exists>resp pub kid. GetPublicKey k name = Inr resp
      \<and> parsePEMEncodedRSAPublicKey L (bytes_of_string (pk_Pem resp)) = Inr pub
      \<and> gcpkms_keyID L pub = Inr kid \<and> kid \<in> dom (nameByKeyID c)"
  using addKeys_registers [of L "\<lparr>kmsClient = k, nameByKeyID = Map.empty\<rparr>" names c name]
  by (simp add: NewClient_def)

text \<open>
  C7. Registry construction, once the KMS client exists, adds the references in order
  and stops at the first one for which \<open>addKey\<close> fails: the whole construction then
  returns that error, wrapped with the name of the offending reference, and no client.
  When the offending reference was fetched and its algorithm is none of the three
  RSA-OAEP/SHA-256 ones, the wrapped error is the unsupported-key-type error. A list
  that holds a reference with an unsupported algorithm anywhere never yields a client.
\<close>

theorem NewClient_first_error:
  "((\<forall>n\<in>set pre. keyError L k n = None) \<and> keyError L k name = Some err \<longrightarrow>
      NewClient L (Inr k) (pre @ name # rest) = Inl (ProblemWithKey name err))
   \<and> ((\<forall>n\<in>set pre. keyError L k n = None) \<and> GetPublicKey k name = Inr resp
        \<and> \<not> supported (pk_Algorithm resp) \<longrightarrow>
      NewClient L (Inr k) (pre @ name # rest) =
        Inl (ProblemWithKey name (UnsupportedKeyType (pk_Algorithm resp))))
   \<and> ((\<exists>n\<in>set names. \<exists>r. GetPublicKey k n = Inr r \<and> \<not> supported (pk_Algorithm r)) \<longrightarrow>
      (\<exists>n\<in>set names. \<exists>e. NewClient L (Inr k) names = Inl (ProblemWithKey n e)))
   \<and> (supported a \<longleftrightarrow> a = RSA_DECRYPT_OAEP_2048_SHA256 \<or> a = RSA_DECRYPT_OAEP_3072_SHA256
        \<or> a = RSA_DECRYPT_OAEP_4096_SHA256)"
proof (intro conjI impI)
  assume "(\<forall>n\<in>set pre. keyError L k n = None) \<and> keyError L k name = Some err"
  then show "NewClient L (Inr k) (pre @ name # rest) = Inl (ProblemWithKey name err)"
    by (simp add: NewClient_def addKeys_first_failure)
next
  assume a: "(\<forall>n\<in>set pre. keyError L k n = None) \<and> GetPublicKey k name = Inr resp
        \<and> \<not> supported (pk_Algorithm resp)"
  then have "keyError L k name = Some (UnsupportedKeyType (pk_Algorithm resp))"
    by (simp add: keyError_unsupported)
  with a show "NewClient L (Inr k) (pre @ name # rest) =
        Inl (ProblemWithKey name (UnsupportedKeyType (pk_Algorithm resp)))"
    by (simp add: NewClient_def addKeys_first_failure)
next
  assume "\<exists>n\<in>set names. \<exists>r. GetPublicKey k n = Inr r \<and> \<not> supported (pk_Algorithm r)"
  then obtain n r where "n \<in> set names" "GetPublicKey k n = Inr r"
    "\<not> supported (pk_Algorithm r)" by blast
  then have "n \<in> set names" "keyError L k n \<noteq> None"
    by (simp_all add: keyError_unsupported)
  then have "\<exists>n\<in>set names. keyError L k n \<noteq> None" by blast
  from first_failing [OF this] obtain pre name rest err where
    s: "names = pre @ name # rest" "\<forall>n\<in>set pre. keyError L k n = None"
       "keyError L k name = Some err" by blast
  then have "NewClient L (Inr k) names = Inl (ProblemWithKey name err)"
    by (simp add: NewClient_def addKeys_first_failure)
  moreover from s(1) have "name \<in> set names" by simp
  ultimately show "\<exists>n\<in>set names. \<exists>e. NewClient L (Inr k) names = Inl (ProblemWithKey n e)"
    by blast
next
  show "supported a \<longleftrightarrow> a = RSA_DECRYPT_OAEP_2048_SHA256 \<or> a = RSA_DECRYPT_OAEP_3072_SHA256
        \<or> a = RSA_DECRYPT_OAEP_4096_SHA256"
    by (cases a) (simp_all add: supported_def)
qed

lemma demo_keyID: "gcpkms_keyID demo_lib demo_pub = Inr demo_kid"
  by code_simp

lemma demo_parse: "parsePEMEncodedRSAPublicKey demo_lib (bytes_of_string ''pem-a'') = Inr demo_pub"
  by (simp add: parsePEMEncodedRSAPublicKey_def demo_lib_def demo_pub_def)

lemma demo_keyError_a: "keyError demo_lib demo_kms ''keys/a'' = None"
  by (simp add: keyError_def addKey_def demo_kms_def supported_def demo_parse demo_keyID)

theorem NewClient_first_error_witness:
  "NewClient demo_lib (Inr demo_kms) ([''keys/a''] @ ''keys/b'' # [''keys/a'']) =
     Inl (ProblemWithKey ''keys/b''
            (UnsupportedKeyType (OtherAlgorithm ''RSA_DECRYPT_OAEP_4096_SHA512'')))
   \<and> NewClient demo_lib (Inr demo_kms) ([''keys/a''] @ ''keys/c'' # [''keys/b'']) =
     Inl (ProblemWithKey ''keys/c'' (LibraryError ''not found''))"
proof -
  have a: "\<forall>n\<in>set [''keys/a'']. keyError demo_lib demo_kms n = None"
    by (simp add: demo_keyError_a)
  have b: "GetPublicKey demo_kms ''keys/b'' =
      Inr \<lparr>pk_Name = ''keys/b'', pk_Algorithm = OtherAlgorithm ''RSA_DECRYPT_OAEP_4096_SHA512'',
           pk_Pem = ''pem-b''\<rparr>"
    by (simp add: demo_kms_def)
  have c: "keyError demo_lib demo_kms ''keys/c'' = Some (LibraryError ''not found'')"
    by (simp add: keyError_def addKey_def demo_kms_def)
  show ?thesis
    using NewClient_first_error [where pre = "[''keys/a'']" and L = demo_lib and k = demo_kms
        and name = "''keys/b''" and rest = "[''keys/a'']" and names = "[]"
        and resp = "\<lparr>pk_Name = ''keys/b'',
           pk_Algorithm = OtherAlgorithm ''RSA_DECRYPT_OAEP_4096_SHA512'', pk_Pem = ''pem-b''\<rparr>"]
      NewClient_first_error [where pre = "[''keys/a'']" and L = demo_lib and k = demo_kms
        and name = "''keys/c''" and rest = "[''keys/b'']" and names = "[]"
        and err = "LibraryError ''not found''"]
    by (simp add: a b c supported_def)
qed

section \<open>Parsing the fetched key\<close>

lemma parsePEM_Inr_iff:
  "parsePEMEncodedRSAPublicKey L pemBytes = Inr k \<longleftrightarrow>
     (\<exists>block. pem_Decode L pemBytes = Some block
        \<and> block_Type block = ''RSA PUBLIC KEY''
        \<and> x509_ParsePKIXPublicKey L (block_Bytes block) = Inr (RSAPub k))"
  by (auto simp add: parsePEMEncodedRSAPublicKey_def
      split: option.splits sum.splits pkixKey.splits if_splits)

lemma addKeys_head_fails:
  "addKey L c name = Inl err \<Longrightarrow> addKeys L c (name # names) = Inl (ProblemWithKey name err)"
  by simp

text \<open>
  C8. The claim is that a well-formed PEM encoding of an RSA public key is accepted and
  yields the key. The code does not do that. It demands the label \<open>RSA PUBLIC KEY\<close>
  and then parses the bytes with \<open>x509.ParsePKIXPublicKey\<close>, so it returns a key exactly
  when a block with that label holds a PKIX structure of an RSA key. A block labelled
  \<open>PUBLIC KEY\<close>, the label of the PKIX form, is refused with "found unexpected
  "PUBLIC KEY" PEM block", whatever its bytes are; a block labelled \<open>RSA PUBLIC KEY\<close>
  whose bytes the PKIX parser refuses is refused with the parser's error. A key
  reference of a supported algorithm whose PEM block is labelled \<open>PUBLIC KEY\<close>
  therefore makes the construction of the registry fail.
\<close>

theorem parsePEM_refuses_standard_forms:
  "(pem_Decode L pemBytes = Some b \<and> block_Type b = ''PUBLIC KEY'' \<longrightarrow>
      parsePEMEncodedRSAPublicKey L pemBytes = Inl (UnexpectedPEMBlock ''PUBLIC KEY''))
   \<and> (pem_Decode L pemBytes = Some b \<and> block_Type b = ''RSA PUBLIC KEY''
        \<and> x509_ParsePKIXPublicKey L (block_Bytes b) = Inl err \<longrightarrow>
      parsePEMEncodedRSAPublicKey L pemBytes = Inl err)
   \<and> (parsePEMEncodedRSAPublicKey L pemBytes = Inr pub \<longleftrightarrow>
        (\<exists>block. pem_Decode L pemBytes = Some block
           \<and> block_Type block = ''RSA PUBLIC KEY''
           \<and> x509_ParsePKIXPublicKey L (block_Bytes block) = Inr (RSAPub pub)))
   \<and> (GetPublicKey k name = Inr resp \<and> supported (pk_Algorithm resp)
        \<and> pem_Decode L (bytes_of_string (pk_Pem resp)) = Some b
        \<and> block_Type b = ''PUBLIC KEY'' \<longrightarrow>
      NewClient L (Inr k) (name # names) =
        Inl (ProblemWithKey name (UnexpectedPEMBlock ''PUBLIC KEY'')))"
proof (intro conjI impI)
  assume "pem_Decode L pemBytes = Some b \<and> block_Type b = ''PUBLIC KEY''"
  then show "parsePEMEncodedRSAPublicKey L pemBytes = Inl (UnexpectedPEMBlock ''PUBLIC KEY'')"
    by (simp add: parsePEMEncodedRSAPublicKey_def)
next
  assume "pem_Decode L pemBytes = Some b \<and> block_Type b = ''RSA PUBLIC KEY''
        \<and> x509_ParsePKIXPublicKey L (block_Bytes b) = Inl err"
  then show "parsePEMEncodedRSAPublicKey L pemBytes = Inl err"
    by (simp add: parsePEMEncodedRSAPublicKey_def)
next
  show "parsePEMEncodedRSAPublicKey L pemBytes = Inr pub \<longleftrightarrow>
        (\<exists>block. pem_Decode L pemBytes = Some block
           \<and> block_Type block = ''RSA PUBLIC KEY''
           \<and> x509_ParsePKIXPublicKey L (block_Bytes block) = Inr (RSAPub pub))"
    by (rule parsePEM_Inr_iff)
next
  assume a: "GetPublicKey k name = Inr resp \<and> supported (pk_Algorithm resp)
        \<and> pem_Decode L (bytes_of_string (pk_Pem resp)) = Some b
        \<and> block_Type b = ''PUBLIC KEY''"
  then have "parsePEMEncodedRSAPublicKey L (bytes_of_string (pk_Pem resp)) =
      Inl (UnexpectedPEMBlock ''PUBLIC KEY'')"
    by (simp add: parsePEMEncodedRSAPublicKey_def)
  with a have "addKey L \<lparr>kmsClient = k, nameByKeyID = Map.empty\<rparr> name =
      Inl (UnexpectedPEMBlock ''PUBLIC KEY'')"
    by (simp add: addKey_def)
  then show "NewClient L (Inr k) (name # names) =
        Inl (ProblemWithKey name (UnexpectedPEMBlock ''PUBLIC KEY''))"
    by (simp add: NewClient_def)
qed

theorem parsePEM_refuses_standard_forms_witness:
  "pem_Decode pkix_lib (bytes_of_string ''pem-a'') =
     Some \<lparr>block_Type = ''PUBLIC KEY'', block_Bytes = [77, 37]\<rparr>
   \<and> x509_ParsePKIXPublicKey pkix_lib [77, 37] = Inr (RSAPub \<lparr>N = 77, E = 37\<rparr>)
   \<and> parsePEMEncodedRSAPublicKey pkix_lib (bytes_of_string ''pem-a'') =
       Inl (UnexpectedPEMBlock ''PUBLIC KEY'')
   \<and> parsePEMEncodedRSAPublicKey pkcs1_lib (bytes_of_string ''pem-a'') =
       Inl (LibraryError ''x509: failed to parse public key (use ParsePKCS1PublicKey instead for this key format)'')
   \<and> NewClient pkix_lib (Inr demo_kms) [''keys/a''] =
       Inl (ProblemWithKey ''keys/a'' (UnexpectedPEMBlock ''PUBLIC KEY''))"
proof -
  have p: "pem_Decode pkix_lib (bytes_of_string ''pem-a'') =
      Some \<lparr>block_Type = ''PUBLIC KEY'', block_Bytes = [77, 37]\<rparr>"
    by (simp add: pkix_lib_def)
  have x: "x509_ParsePKIXPublicKey pkix_lib [77, 37] = Inr (RSAPub \<lparr>N = 77, E = 37\<rparr>)"
    by (simp add: pkix_lib_def demo_lib_def)
  have q: "pem_Decode pkcs1_lib (bytes_of_string ''pem-a'') =
      Some \<lparr>block_Type = ''RSA PUBLIC KEY'', block_Bytes = [48, 77, 37]\<rparr>"
    by (simp add: pkcs1_lib_def)
  have y: "x509_ParsePKIXPublicKey pkcs1_lib [48, 77, 37] =
      Inl (LibraryError ''x509: failed to parse public key (use ParsePKCS1PublicKey instead for this key format)'')"
    by (simp add: pkcs1_lib_def)
  have g: "GetPublicKey demo_kms ''keys/a'' =
      Inr \<lparr>pk_Name = ''keys/a'', pk_Algorithm = RSA_DECRYPT_OAEP_2048_SHA256,
           pk_Pem = ''pem-a''\<rparr>"
    by (simp add: demo_kms_def)
  show ?thesis
    using parsePEM_refuses_standard_forms [where L = pkix_lib
        and pemBytes = "bytes_of_string ''pem-a''"
        and b = "\<lparr>block_Type = ''PUBLIC KEY'', block_Bytes = [77, 37]\<rparr>"
        and k = demo_kms and name = "''keys/a''" and names = "[]"
        and resp = "\<lparr>pk_Name = ''keys/a'', pk_Algorithm = RSA_DECRYPT_OAEP_2048_SHA256,
           pk_Pem = ''pem-a''\<rparr>"]
      parsePEM_refuses_standard_forms [where L = pkcs1_lib
        and pemBytes = "bytes_of_string ''pem-a''"
        and b = "\<lparr>block_Type = ''RSA PUBLIC KEY'', block_Bytes = [48, 77, 37]\<rparr>"
        and err = "LibraryError ''x509: failed to parse public key (use ParsePKCS1PublicKey instead for this key format)''"]
    by (simp add: p x q y g supported_def)
qed

section \<open>The key identifier at the call the code makes\<close>

lemma rsaoaep_keyID_go: "rsaoaep_keyID (go_asn1 L) pub = Inl asn1_pointer_error"
  by (simp add: rsaoaep_keyID_def go_asn1_def)

lemma gcpkms_keyID_go: "gcpkms_keyID (go_asn1 L) pub = Inl asn1_pointer_error"
  by (simp add: gcpkms_keyID_def go_asn1_def)

lemma addKey_go: "\<exists>e. addKey (go_asn1 L) c name = Inl e"
  by (simp add: addKey_def gcpkms_keyID_go split: sum.splits)

lemma Unwrap_empty_registry:
  "nameByKeyID c = Map.empty \<Longrightarrow>
   fst (Unwrap c ss) = Inl ErrIncorrectIdentity \<or> fst (Unwrap c ss) = Inl InvalidRecipient"
  by (induction ss) (auto simp add: Let_def case_prod_unfold)

text \<open>
  C2. The claim is that \<open>Wrap\<close> produces, for every valid key, one stanza of the fixed
  type whose argument is the identifier of the key and whose body has the length of the
  modulus. The code produces no stanza: \<open>NewRecipient\<close> computes the identifier first,
  \<open>keyID\<close> hands the pointer to the key to \<open>asn1.Marshal\<close>, \<open>asn1.Marshal\<close> refuses a
  pointer, and so for every key \<open>keyID\<close> and \<open>NewRecipient\<close> return that error and no
  recipient exists on which \<open>Wrap\<close> could be called.
\<close>

theorem NewRecipient_fails:
  "rsaoaep_keyID (go_asn1 L) pub = Inl asn1_pointer_error
   \<and> NewRecipient (go_asn1 L) pub = Inl asn1_pointer_error
   \<and> NewRecipient (go_asn1 demo_lib) \<lparr>N = 77, E = 37\<rparr> =
       Inl (LibraryError ''asn1: structure error: unknown Go type: *rsa.PublicKey'')"
  by (simp add: NewRecipient_def rsaoaep_keyID_go asn1_pointer_error_def)

text \<open>
  C3. The claim is that two valid keys have the same identifier exactly when they have
  the same modulus and exponent. With \<open>asn1.Marshal\<close> refusing the pointer, \<open>keyID\<close>
  returns the same error for every key, in both packages: any two keys get the same
  result, and none gets an identifier. So the keys \<open>(77, 37)\<close> and \<open>(187, 7)\<close>, which
  differ in modulus and exponent, are not told apart.
\<close>

theorem keyID_fails_alike:
  "rsaoaep_keyID (go_asn1 L) k1 = rsaoaep_keyID (go_asn1 L) k2
   \<and> gcpkms_keyID (go_asn1 L) k1 = gcpkms_keyID (go_asn1 L) k2
   \<and> rsaoaep_keyID (go_asn1 L) \<lparr>N = 77, E = 37\<rparr> = Inl asn1_pointer_error
   \<and> rsaoaep_keyID (go_asn1 L) \<lparr>N = 187, E = 7\<rparr> = Inl asn1_pointer_error
   \<and> N \<lparr>N = 77, E = 37\<rparr> \<noteq> N \<lparr>N = 187, E = 7\<rparr>
   \<and> E \<lparr>N = 77, E = 37\<rparr> \<noteq> E \<lparr>N = 187, E = 7\<rparr>"
  by (simp add: rsaoaep_keyID_go gcpkms_keyID_go)

text \<open>
  C1. The claim is that \<open>Unwrap\<close> returns the content key from what \<open>Wrap\<close> made for a
  key that is in the registry. The code cannot make the round trip. On the wrapping
  side \<open>NewRecipient\<close> fails for every key. On the other side \<open>addKey\<close> fails for every
  reference, so \<open>NewClient\<close> fails on every non-empty list of references, with the
  error of the first one; the only client it returns is the one for no references, with
  an empty registry; and with an empty registry \<open>Unwrap\<close> returns, for every stanza
  list, one of its two errors and never a content key.
\<close>

theorem roundtrip_unreachable:
  "NewRecipient (go_asn1 L) pub = Inl asn1_pointer_error
   \<and> (\<exists>e. NewClient (go_asn1 L) (Inr k) (name # names) = Inl (ProblemWithKey name e))
   \<and> NewClient (go_asn1 L) (Inr k) [] = Inr \<lparr>kmsClient = k, nameByKeyID = Map.empty\<rparr>
   \<and> (fst (Unwrap \<lparr>kmsClient = k, nameByKeyID = Map.empty\<rparr> stanzas) = Inl ErrIncorrectIdentity
        \<or> fst (Unwrap \<lparr>kmsClient = k, nameByKeyID = Map.empty\<rparr> stanzas) = Inl InvalidRecipient)
   \<and> NewClient (go_asn1 demo_lib) (Inr demo_kms) [''keys/a''] =
       Inl (ProblemWithKey ''keys/a''
              (LibraryError ''asn1: structure error: unknown Go type: *rsa.PublicKey''))"
proof (intro conjI)
  show "NewRecipient (go_asn1 L) pub = Inl asn1_pointer_error"
    by (simp add: NewRecipient_def rsaoaep_keyID_go)
next
  from addKey_go obtain e where
    "addKey (go_asn1 L) \<lparr>kmsClient = k, nameByKeyID = Map.empty\<rparr> name = Inl e" by blast
  then have "NewClient (go_asn1 L) (Inr k) (name # names) = Inl (ProblemWithKey name e)"
    by (simp add: NewClient_def)
  then show "\<exists>e. NewClient (go_asn1 L) (Inr k) (name # names) = Inl (ProblemWithKey name e)"
    by blast
next
  show "NewClient (go_asn1 L) (Inr k) [] = Inr \<lparr>kmsClient = k, nameByKeyID = Map.empty\<rparr>"
    by (simp add: NewClient_def)
next
  show "fst (Unwrap \<lparr>kmsClient = k, nameByKeyID = Map.empty\<rparr> stanzas) = Inl ErrIncorrectIdentity
        \<or> fst (Unwrap \<lparr>kmsClient = k, nameByKeyID = Map.empty\<rparr> stanzas) = Inl InvalidRecipient"
    by (rule Unwrap_empty_registry) simp
next
  have "parsePEMEncodedRSAPublicKey (go_asn1 demo_lib) (bytes_of_string ''pem-a'') = Inr demo_pub"
    by (simp add: parsePEMEncodedRSAPublicKey_def go_asn1_def demo_lib_def demo_pub_def)
  then have "addKey (go_asn1 demo_lib) \<lparr>kmsClient = demo_kms, nameByKeyID = Map.empty\<rparr> ''keys/a'' =
      Inl asn1_pointer_error"
    by (simp add: addKey_def demo_kms_def supported_def gcpkms_keyID_go)
  then show "NewClient (go_asn1 demo_lib) (Inr demo_kms) [''keys/a''] =
       Inl (ProblemWithKey ''keys/a''
              (LibraryError ''asn1: structure error: unknown Go type: *rsa.PublicKey''))"
    by (simp add: NewClient_def asn1_pointer_error_def)
qed

end
